theory Spec2Isabelle
  imports Complex_Main
begin

section \<open>NeuroVault: the encrypted vault store and the face-match gate\<close>

text \<open>
  A shallow embedding of \<^verbatim>\<open>neurovault_encryptor.py\<close> (class \<^verbatim>\<open>VaultEncryptor\<close>) and of
  the decision logic of \<^verbatim>\<open>neurovault_face_auth.py\<close> (class \<^verbatim>\<open>FaceAuthenticator\<close>).
  Every method becomes a function that takes the object and the outside world (files,
  clock, random source) and returns its result with the world it leaves behind. A
  Python exception is a value of type \<open>exn\<close> on the left of a sum.
\<close>

subsection \<open>Values, exceptions and the outside world\<close>

type_synonym path = string
type_synonym bytes = string

text \<open>
  The values \<^verbatim>\<open>json.loads\<close> can return and \<^verbatim>\<open>json.dumps\<close> accepts. A Python dict keeps
  its insertion order, so it is a list of pairs. Floating-point numbers are left out:
  the vault record holds strings only.
\<close>

datatype json =
    JNull
  | JBool bool
  | JNum int
  | JStr string
  | JList "json list"
  | JDict "(string \<times> json) list"

text \<open>The exceptions the modelled code can meet.\<close>

datatype exn =
    OSError
  | SameFileError
  | ValueError
  | AttributeError
  | InvalidToken
  | UnicodeDecodeError
  | JSONDecodeError

record datetime =
  dt_year :: nat
  dt_month :: nat
  dt_day :: nat
  dt_hour :: nat
  dt_minute :: nat
  dt_second :: nat

text \<open>
  What can go wrong when a path is written. The open for writing is refused: the file
  stays as it is. The write stops after \<open>n\<close> bytes: the open has already truncated the
  file, which keeps the first \<open>n\<close> bytes of the new content. The file is written in
  full, but its permission bits cannot be set afterwards.
\<close>

datatype fault = OpenFails | WriteFails nat | ChmodFails

text \<open>
  The world: the contents and the permission bits of the files that exist, the fault
  the environment holds ready for a path, the permission bits a newly created file gets
  (from the umask), the bytes \<^verbatim>\<open>os.urandom\<close> will hand out next, and what
  \<^verbatim>\<open>datetime.now()\<close> returns.
\<close>

record world =
  files :: "path \<rightharpoonup> bytes"
  modes :: "path \<rightharpoonup> nat"
  faults :: "path \<rightharpoonup> fault"
  create_mode :: nat
  entropy :: bytes
  clock :: datetime

definition os_path_exists :: "path \<Rightarrow> world \<Rightarrow> bool" where
  "os_path_exists p w = (files w p \<noteq> None)"

definition read_file :: "path \<Rightarrow> world \<Rightarrow> exn + bytes" where
  "read_file p w = (case files w p of None \<Rightarrow> Inl OSError | Some c \<Rightarrow> Inr c)"

text \<open>
  The file at \<open>p\<close> after \<^verbatim>\<open>open(p, 'wb')\<close> and a write of \<open>c\<close>: an existing file is
  truncated and keeps its permission bits, a new one is created with the default bits.
\<close>

definition truncate_and_store :: "path \<Rightarrow> bytes \<Rightarrow> world \<Rightarrow> world" where
  "truncate_and_store p c w =
     w\<lparr>files := (files w)(p \<mapsto> c),
       modes := (if files w p = None then (modes w)(p \<mapsto> create_mode w) else modes w)\<rparr>"

text \<open>\<^verbatim>\<open>with open(p, 'wb') as f: f.write(c)\<close>.\<close>

definition write_file :: "path \<Rightarrow> bytes \<Rightarrow> world \<Rightarrow> (exn + unit) \<times> world" where
  "write_file p c w =
     (case faults w p of
        Some OpenFails \<Rightarrow> (Inl OSError, w)
      | Some (WriteFails n) \<Rightarrow> (Inl OSError, truncate_and_store p (take n c) w)
      | Some ChmodFails \<Rightarrow> (Inr (), truncate_and_store p c w)
      | None \<Rightarrow> (Inr (), truncate_and_store p c w))"

text \<open>\<^verbatim>\<open>os.chmod(p, m)\<close>.\<close>

definition os_chmod :: "path \<Rightarrow> nat \<Rightarrow> world \<Rightarrow> (exn + unit) \<times> world" where
  "os_chmod p m w =
     (if faults w p = Some ChmodFails \<or> files w p = None then (Inl OSError, w)
      else (Inr (), w\<lparr>modes := (modes w)(p \<mapsto> m)\<rparr>))"

definition os_urandom :: "nat \<Rightarrow> world \<Rightarrow> bytes \<times> world" where
  "os_urandom n w =
     (take n (entropy w @ replicate n (CHR 0x00)), w\<lparr>entropy := drop n (entropy w)\<rparr>)"

text \<open>
  \<^verbatim>\<open>shutil.copy2(src, dst)\<close>: refuses to copy a file onto itself, reads the source,
  writes the target as \<^verbatim>\<open>open(dst, 'wb')\<close> does, then copies the permission bits of the
  source onto the target.
\<close>

definition copystat :: "path \<Rightarrow> path \<Rightarrow> world \<Rightarrow> (exn + unit) \<times> world" where
  "copystat src dst w =
     (if faults w dst = Some ChmodFails then (Inl OSError, w)
      else (Inr (), w\<lparr>modes := (modes w)(dst := modes w src)\<rparr>))"

definition shutil_copy2 :: "path \<Rightarrow> path \<Rightarrow> world \<Rightarrow> (exn + unit) \<times> world" where
  "shutil_copy2 src dst w =
     (if src = dst \<and> os_path_exists src w then (Inl SameFileError, w)
      else case read_file src w of
             Inl e \<Rightarrow> (Inl e, w)
           | Inr c \<Rightarrow>
               (case write_file dst c w of
                  (Inl e, w1) \<Rightarrow> (Inl e, w1)
                | (Inr _, w1) \<Rightarrow> copystat src dst w1))"

subsection \<open>The libraries the code calls\<close>

text \<open>
  \<^verbatim>\<open>cryptography\<close>, \<^verbatim>\<open>json\<close> and \<^verbatim>\<open>base64\<close> are not part of the repository. The model
  takes them as a parameter: a record of the functions the code calls. A Fernet
  constructor accepts a key or raises; encryption takes the key, a fresh
  initialisation vector and the plaintext; decryption returns the plaintext or fails
  (\<^verbatim>\<open>InvalidToken\<close>).
\<close>

record library =
  urlsafe_b64encode :: "bytes \<Rightarrow> bytes"
  Fernet_valid_key :: "bytes \<Rightarrow> bool"
  Fernet_encrypt :: "bytes \<Rightarrow> bytes \<Rightarrow> bytes \<Rightarrow> bytes"
  Fernet_decrypt :: "bytes \<Rightarrow> bytes \<Rightarrow> bytes option"
  PBKDF2HMAC_derive :: "bytes \<Rightarrow> nat \<Rightarrow> nat \<Rightarrow> bytes \<Rightarrow> bytes"
  str_encode :: "string \<Rightarrow> bytes"
  bytes_decode :: "bytes \<Rightarrow> string option"
  json_dumps :: "json \<Rightarrow> string"
  json_loads :: "string \<Rightarrow> json option"

text \<open>\<^verbatim>\<open>Fernet(key)\<close>: the cipher object is the key it holds; a malformed key raises.\<close>

definition Fernet :: "library \<Rightarrow> bytes \<Rightarrow> exn + bytes" where
  "Fernet lib key = (if Fernet_valid_key lib key then Inr key else Inl ValueError)"

subsection \<open>VaultEncryptor\<close>

record encryptor =
  key_file :: path
  data_file :: path
  cipher :: "bytes option"

definition empty_record :: json where
  "empty_record = JDict [(''notes'', JStr ''''), (''last_modified'', JStr '''')]"

text \<open>\<^verbatim>\<open>generate_key\<close>: \<^verbatim>\<open>Fernet.generate_key()\<close> encodes 32 fresh random bytes.\<close>

definition generate_key :: "library \<Rightarrow> world \<Rightarrow> bytes \<times> world" where
  "generate_key lib w = (let (r, w') = os_urandom 32 w in (urlsafe_b64encode lib r, w'))"

text \<open>
  \<^verbatim>\<open>derive_key_from_password\<close>: the salt is drawn from the random source only when none
  is given; the method returns the pair of key and salt.
\<close>

definition derive_key_from_password ::
  "library \<Rightarrow> string \<Rightarrow> bytes option \<Rightarrow> world \<Rightarrow> (bytes \<times> bytes) \<times> world" where
  "derive_key_from_password lib password salt w =
     (let (salt', w') = (case salt of None \<Rightarrow> os_urandom 16 w | Some s \<Rightarrow> (s, w));
          key = urlsafe_b64encode lib
                  (PBKDF2HMAC_derive lib salt' 100000 32 (str_encode lib password))
      in ((key, salt'), w'))"

text \<open>
  \<^verbatim>\<open>save_key\<close>: writes the key file, then sets its permission bits to \<^verbatim>\<open>0o600\<close> (384);
  an exception of either step is printed and raised again.
\<close>

definition save_key :: "encryptor \<Rightarrow> bytes \<Rightarrow> world \<Rightarrow> (exn + unit) \<times> world" where
  "save_key e key w =
     (case write_file (key_file e) key w of
        (Inl x, w1) \<Rightarrow> (Inl x, w1)
      | (Inr _, w1) \<Rightarrow> os_chmod (key_file e) 384 w1)"




text \<open>
  \<^verbatim>\<open>encrypt_data\<close>: \<^verbatim>\<open>json.dumps(data, indent=2)\<close>, \<^verbatim>\<open>.encode()\<close>, \<^verbatim>\<open>self.cipher.encrypt\<close>.
  Encryption draws its initialisation vector from the random source. With no cipher
  the attribute access on \<^verbatim>\<open>None\<close> raises.
\<close>

definition encrypt_data ::
  "library \<Rightarrow> encryptor \<Rightarrow> json \<Rightarrow> world \<Rightarrow> (exn + bytes) \<times> world" where
  "encrypt_data lib e data w =
     (let json_data = json_dumps lib data in
      case cipher e of
        None \<Rightarrow> (Inl AttributeError, w)
      | Some k \<Rightarrow>
          (let (iv, w') = os_urandom 16 w
           in (Inr (Fernet_encrypt lib k iv (str_encode lib json_data)), w')))"

text \<open>\<^verbatim>\<open>decrypt_data\<close>: \<^verbatim>\<open>self.cipher.decrypt\<close>, \<^verbatim>\<open>.decode()\<close>, \<^verbatim>\<open>json.loads\<close>; each may raise.\<close>

definition decrypt_data :: "library \<Rightarrow> encryptor \<Rightarrow> bytes \<Rightarrow> exn + json" where
  "decrypt_data lib e encrypted_data =
     (case cipher e of
        None \<Rightarrow> Inl AttributeError
      | Some k \<Rightarrow>
          (case Fernet_decrypt lib k encrypted_data of
             None \<Rightarrow> Inl InvalidToken
           | Some decrypted_data \<Rightarrow>
               (case bytes_decode lib decrypted_data of
                  None \<Rightarrow> Inl UnicodeDecodeError
                | Some json_data \<Rightarrow>
                    (case json_loads lib json_data of
                       None \<Rightarrow> Inl JSONDecodeError
                     | Some data \<Rightarrow> Inr data))))"

text \<open>
  \<^verbatim>\<open>save_data\<close>: encrypts, writes the data file, then sets its permission bits to
  \<^verbatim>\<open>0o600\<close> (384); an exception of any step is printed and raised again.
\<close>

definition save_data ::
  "library \<Rightarrow> encryptor \<Rightarrow> json \<Rightarrow> world \<Rightarrow> (exn + unit) \<times> world" where
  "save_data lib e data w =
     (case encrypt_data lib e data w of
        (Inl x, w1) \<Rightarrow> (Inl x, w1)
      | (Inr encrypted_data, w1) \<Rightarrow>
          (case write_file (data_file e) encrypted_data w1 of
             (Inl x, w2) \<Rightarrow> (Inl x, w2)
           | (Inr _, w2) \<Rightarrow> os_chmod (data_file e) 384 w2))"

text \<open>
  \<^verbatim>\<open>load_data\<close>: the empty record when the data file does not exist; otherwise read and
  decrypt. The \<^verbatim>\<open>except Exception\<close> clause returns the empty record too, so the method
  never raises: every result is on the right of the sum.
\<close>

definition load_data :: "library \<Rightarrow> encryptor \<Rightarrow> world \<Rightarrow> exn + json" where
  "load_data lib e w =
     (if \<not> os_path_exists (data_file e) w then Inr empty_record
      else case read_file (data_file e) w of
             Inl _ \<Rightarrow> Inr empty_record
           | Inr encrypted_data \<Rightarrow>
               (case decrypt_data lib e encrypted_data of
                  Inl _ \<Rightarrow> Inr empty_record
                | Inr data \<Rightarrow> Inr data))"

text \<open>\<^verbatim>\<open>datetime.now().strftime("%Y%m%d_%H%M%S")\<close>, for a four-digit year.\<close>

definition digit_char :: "nat \<Rightarrow> char" where
  "digit_char d =
     (if d = 0 then CHR ''0'' else if d = 1 then CHR ''1'' else if d = 2 then CHR ''2''
      else if d = 3 then CHR ''3'' else if d = 4 then CHR ''4'' else if d = 5 then CHR ''5''
      else if d = 6 then CHR ''6'' else if d = 7 then CHR ''7'' else if d = 8 then CHR ''8''
      else CHR ''9'')"

definition pad2 :: "nat \<Rightarrow> string" where
  "pad2 n = [digit_char (n div 10 mod 10), digit_char (n mod 10)]"

definition pad4 :: "nat \<Rightarrow> string" where
  "pad4 n = pad2 (n div 100) @ pad2 (n mod 100)"

definition strftime_backup :: "datetime \<Rightarrow> string" where
  "strftime_backup t =
     pad4 (dt_year t) @ pad2 (dt_month t) @ pad2 (dt_day t) @ ''_'' @
     pad2 (dt_hour t) @ pad2 (dt_minute t) @ pad2 (dt_second t)"

text \<open>
  \<^verbatim>\<open>backup_data\<close>: nothing to do without a data file; the target is the given path or
  the data file's path with the suffix \<^verbatim>\<open>.backup_\<close> and the time stamp; any exception of
  the copy gives \<^verbatim>\<open>False\<close>.
\<close>

definition backup_target :: "encryptor \<Rightarrow> path option \<Rightarrow> world \<Rightarrow> path" where
  "backup_target e backup_file w =
     (case backup_file of
        None \<Rightarrow> data_file e @ ''.backup_'' @ strftime_backup (clock w)
      | Some b \<Rightarrow> b)"

definition backup_data :: "encryptor \<Rightarrow> path option \<Rightarrow> world \<Rightarrow> bool \<times> world" where
  "backup_data e backup_file w =
     (if \<not> os_path_exists (data_file e) w then (False, w)
      else case shutil_copy2 (data_file e) (backup_target e backup_file w) w of
             (Inl _, w') \<Rightarrow> (False, w')
           | (Inr _, w') \<Rightarrow> (True, w'))"

text \<open>
  \<^verbatim>\<open>restore_data\<close>: the backup must exist and decrypt under the current cipher before it
  is copied over the data file; any exception gives \<^verbatim>\<open>False\<close>.
\<close>

definition restore_data :: "library \<Rightarrow> encryptor \<Rightarrow> path \<Rightarrow> world \<Rightarrow> bool \<times> world" where
  "restore_data lib e backup_file w =
     (if \<not> os_path_exists backup_file w then (False, w)
      else case read_file backup_file w of
             Inl _ \<Rightarrow> (False, w)
           | Inr encrypted_data \<Rightarrow>
               (case decrypt_data lib e encrypted_data of
                  Inl _ \<Rightarrow> (False, w)
                | Inr _ \<Rightarrow>
                    (case shutil_copy2 backup_file (data_file e) w of
                       (Inl _, w') \<Rightarrow> (False, w')
                     | (Inr _, w') \<Rightarrow> (True, w'))))"

text \<open>
  \<^verbatim>\<open>change_encryption_key\<close>, in the order of the source: load the record, try a backup
  (its failure only prints a warning), take or generate the new key, replace the
  cipher, save the new key, then re-encrypt and save the record. An exception at any
  step gives \<^verbatim>\<open>False\<close> and leaves object and world as they are at that step.
\<close>

definition change_encryption_key ::
  "library \<Rightarrow> encryptor \<Rightarrow> bytes option \<Rightarrow> world \<Rightarrow> bool \<times> encryptor \<times> world" where
  "change_encryption_key lib e new_key w =
     (case load_data lib e w of
        Inl _ \<Rightarrow> (False, e, w)
      | Inr existing_data \<Rightarrow>
          (let (backed_up, w1) = backup_data e None w;
               (new_key', w2) = (case new_key of None \<Rightarrow> generate_key lib w1 | Some k \<Rightarrow> (k, w1))
           in case Fernet lib new_key' of
                Inl _ \<Rightarrow> (False, e, w2)
              | Inr c \<Rightarrow>
                  (let e' = e\<lparr>cipher := Some c\<rparr> in
                   case save_key e' new_key' w2 of
                     (Inl _, w3) \<Rightarrow> (False, e', w3)
                   | (Inr _, w3) \<Rightarrow>
                       (case save_data lib e' existing_data w3 of
                          (Inl _, w4) \<Rightarrow> (False, e', w4)
                        | (Inr _, w4) \<Rightarrow> (True, e', w4)))))"

subsection \<open>FaceAuthenticator\<close>

text \<open>
  A face encoding is an array of floating-point numbers; the model holds the value of
  each number. Comparing two floating-point numbers is comparing their values, so
  \<^verbatim>\<open><=\<close> on distances and tolerance is \<open>\<le>\<close> on the values.
\<close>

type_synonym encoding = "real list"

record authenticator =
  known_face_encodings :: "encoding list"
  tolerance :: real
  max_attempts :: nat
  timeout_seconds :: real

text \<open>
  \<^verbatim>\<open>face_recognition.face_distance(known, face)\<close> is not part of the repository; it
  computes, in floating-point arithmetic, one distance for each known encoding, or
  raises on arrays of incompatible shapes. The model takes it as a parameter and says
  nothing about the numbers it returns.
\<close>

record face_recognition =
  face_distance :: "encoding list \<Rightarrow> encoding \<Rightarrow> exn + real list"

text \<open>The \<^verbatim>\<open>for\<close> loop of \<^verbatim>\<open>verify_face\<close> over the encodings of the current frame.\<close>

fun compare_faces :: "face_recognition \<Rightarrow> authenticator \<Rightarrow> encoding list \<Rightarrow> exn + bool" where
  "compare_faces fr a [] = Inr False"
| "compare_faces fr a (face_encoding # rest) =
     (case face_distance fr (known_face_encodings a) face_encoding of
        Inl x \<Rightarrow> Inl x
      | Inr face_distances \<Rightarrow>
          (if list_ex (\<lambda>d. d \<le> tolerance a) face_distances then Inr True
           else compare_faces fr a rest))"

text \<open>
  \<^verbatim>\<open>verify_face\<close>: \<^verbatim>\<open>False\<close> when there is no known encoding or no encoding of the frame
  (\<^verbatim>\<open>None\<close> or the empty list); any exception gives \<^verbatim>\<open>False\<close>.
\<close>

definition verify_face ::
  "face_recognition \<Rightarrow> authenticator \<Rightarrow> encoding list option \<Rightarrow> bool" where
  "verify_face fr a face_encodings =
     (case face_encodings of
        None \<Rightarrow> False
      | Some encs \<Rightarrow>
          (if known_face_encodings a = [] \<or> encs = [] then False
           else case compare_faces fr a encs of Inl _ \<Rightarrow> False | Inr b \<Rightarrow> b))"

text \<open>
  A camera frame is represented by the encodings the external detector finds in it.
  \<^verbatim>\<open>detect_and_encode_face\<close> reports failure with \<^verbatim>\<open>None\<close> when it finds none.
\<close>

definition detect_and_encode_face :: "encoding list \<Rightarrow> bool \<times> encoding list option" where
  "detect_and_encode_face frame = (if frame = [] then (False, None) else (True, Some frame))"

text \<open>
  One pass through the \<^verbatim>\<open>while\<close> loop of \<^verbatim>\<open>authenticate\<close> reads the clock and the camera:
  \<open>now\<close> is \<^verbatim>\<open>time.time()\<close>, \<open>frame\<close> is \<^verbatim>\<open>None\<close> when \<^verbatim>\<open>cap.read()\<close> fails.
\<close>

record tick =
  now :: real
  frame :: "encoding list option"

datatype pass = Continue nat nat | Return "bool \<times> string" | Break

definition required_matches :: nat where
  "required_matches = 3"

text \<open>The body of the loop, from the counters \<open>attempts\<close> and \<open>consecutive_matches\<close>.\<close>

definition loop_body ::
  "face_recognition \<Rightarrow> authenticator \<Rightarrow> real \<Rightarrow> nat \<Rightarrow> nat \<Rightarrow> tick \<Rightarrow> pass" where
  "loop_body fr a start_time attempts consecutive_matches t =
     (if now t - start_time > timeout_seconds a then Break
      else case frame t of
             None \<Rightarrow> Continue attempts consecutive_matches
           | Some img \<Rightarrow>
               (case detect_and_encode_face img of
                  (True, face_encodings) \<Rightarrow>
                    (if verify_face fr a face_encodings then
                       (if consecutive_matches + 1 \<ge> required_matches
                        then Return (True, ''Authentication successful'')
                        else Continue attempts (consecutive_matches + 1))
                     else Continue (attempts + 1) 0)
                | (False, _) \<Rightarrow> Continue attempts 0))"

definition after_loop :: "authenticator \<Rightarrow> nat \<Rightarrow> bool \<times> string" where
  "after_loop a attempts =
     (if attempts \<ge> max_attempts a
      then (False, ''Authentication failed: Maximum attempts exceeded'')
      else (False, ''Authentication failed: Timeout''))"

text \<open>
  The loop over the passes the environment supplies. \<open>None\<close>: the loop is still
  running when the supplied passes end.
\<close>

fun sampling ::
  "face_recognition \<Rightarrow> authenticator \<Rightarrow> real \<Rightarrow> nat \<Rightarrow> nat \<Rightarrow> tick list \<Rightarrow>
   (bool \<times> string) option" where
  "sampling fr a start_time attempts consecutive_matches [] =
     (if attempts < max_attempts a then None else Some (after_loop a attempts))"
| "sampling fr a start_time attempts consecutive_matches (t # ts) =
     (if \<not> attempts < max_attempts a then Some (after_loop a attempts)
      else case loop_body fr a start_time attempts consecutive_matches t of
             Break \<Rightarrow> Some (after_loop a attempts)
           | Return r \<Rightarrow> Some r
           | Continue attempts' consecutive_matches' \<Rightarrow>
               sampling fr a start_time attempts' consecutive_matches' ts)"

definition authenticate ::
  "face_recognition \<Rightarrow> authenticator \<Rightarrow> bool \<Rightarrow> real \<Rightarrow> tick list \<Rightarrow>
   (bool \<times> string) option" where
  "authenticate fr a camera_opened start_time ticks =
     (if known_face_encodings a = []
      then Some (False, ''No reference face found. Please setup face first.'')
      else if \<not> camera_opened then Some (False, ''Cannot access camera'')
      else sampling fr a start_time 0 0 ticks)"

subsection \<open>A small library instance for running the model\<close>

text \<open>
  A concrete, insecure instance of the library record, for evaluating the model on
  concrete worlds. Keys are 32 bytes; a token is the key, the 16-byte initialisation
  vector and the plaintext; decryption checks the key. The JSON codec handles an
  object of two string members, the shape of a vault record.
\<close>

definition toy_encrypt :: "bytes \<Rightarrow> bytes \<Rightarrow> bytes \<Rightarrow> bytes" where
  "toy_encrypt k iv m = k @ iv @ m"

definition toy_decrypt :: "bytes \<Rightarrow> bytes \<Rightarrow> bytes option" where
  "toy_decrypt k t =
     (if take (length k) t = k \<and> length k + 16 \<le> length t
      then Some (drop (length k + 16) t) else None)"

definition expect :: "string \<Rightarrow> string \<Rightarrow> string option" where
  "expect p s = (if take (length p) s = p then Some (drop (length p) s) else None)"

fun toy_escape :: "string \<Rightarrow> string" where
  "toy_escape [] = []"
| "toy_escape (c # cs) =
     (if c = CHR 0x22 \<or> c = CHR 0x5C then CHR 0x5C # c # toy_escape cs
      else c # toy_escape cs)"

fun toy_string :: "string \<Rightarrow> (string \<times> string) option" where
  "toy_string [] = None"
| "toy_string [c] = (if c = CHR 0x22 then Some ([], []) else None)"
| "toy_string (c # d # cs) =
     (if c = CHR 0x22 then Some ([], d # cs)
      else if c = CHR 0x5C then map_option (\<lambda>(s, r). (d # s, r)) (toy_string cs)
      else map_option (\<lambda>(s, r). (c # s, r)) (toy_string (d # cs)))"

definition toy_member :: "string \<Rightarrow> ((string \<times> json) \<times> string) option" where
  "toy_member s =
     Option.bind (expect [CHR 0x22] s) (\<lambda>s1.
     Option.bind (toy_string s1) (\<lambda>(k, s2).
     Option.bind (expect [CHR '':'', CHR 0x22] s2) (\<lambda>s3.
     Option.bind (toy_string s3) (\<lambda>(v, s4). Some ((k, JStr v), s4)))))"

definition toy_quote :: "string \<Rightarrow> string" where
  "toy_quote s = CHR 0x22 # toy_escape s @ [CHR 0x22]"

fun toy_dumps :: "json \<Rightarrow> string" where
  "toy_dumps (JDict [(k1, JStr v1), (k2, JStr v2)]) =
     ''{'' @ toy_quote k1 @ '':'' @ toy_quote v1 @ '','' @
     toy_quote k2 @ '':'' @ toy_quote v2 @ ''}''"
| "toy_dumps _ = ''null''"

definition toy_loads :: "string \<Rightarrow> json option" where
  "toy_loads s =
     Option.bind (expect ''{'' s) (\<lambda>s1.
     Option.bind (toy_member s1) (\<lambda>(m1, s2).
     Option.bind (expect '','' s2) (\<lambda>s3.
     Option.bind (toy_member s3) (\<lambda>(m2, s4).
       if s4 = ''}'' then Some (JDict [m1, m2]) else None))))"

definition toy_lib :: library where
  "toy_lib =
     \<lparr>urlsafe_b64encode = (\<lambda>b. b),
      Fernet_valid_key = (\<lambda>k. length k = 32),
      Fernet_encrypt = toy_encrypt,
      Fernet_decrypt = toy_decrypt,
      PBKDF2HMAC_derive = (\<lambda>salt iterations n p. take n (p @ salt @ replicate n (CHR 0x00))),
      str_encode = (\<lambda>s. s),
      bytes_decode = Some,
      json_dumps = toy_dumps,
      json_loads = toy_loads\<rparr>"

subsection \<open>What the code relies on from the libraries\<close>


definition fernet_roundtrip :: "library \<Rightarrow> bool" where
  "fernet_roundtrip lib =
     (\<forall>k iv m. Fernet_valid_key lib k \<and> length iv = 16 \<longrightarrow>
        Fernet_decrypt lib k (Fernet_encrypt lib k iv m) = Some m)"

definition fernet_rejects_other_key :: "library \<Rightarrow> bool" where
  "fernet_rejects_other_key lib =
     (\<forall>k k' iv m. Fernet_valid_key lib k \<and> Fernet_valid_key lib k' \<and> k' \<noteq> k \<and>
        length iv = 16 \<longrightarrow>
        Fernet_decrypt lib k (Fernet_encrypt lib k' iv m) = None)"

subsection \<open>The backup name of the specification\<close>



subsection \<open>Concrete objects and worlds\<close>

definition key_a :: bytes where
  "key_a = ''0123456789abcdef0123456789abcdef''"

definition key_b :: bytes where
  "key_b = ''fedcba9876543210fedcba9876543210''"

definition record0 :: json where
  "record0 =
     JDict [(''notes'', JStr ''buy milk''), (''last_modified'', JStr ''2025-01-01 12:00:00'')]"

definition blob_a :: bytes where
  "blob_a = toy_encrypt key_a ''0000000000000000'' (toy_dumps record0)"

definition blob_b :: bytes where
  "blob_b = toy_encrypt key_b ''0000000000000000'' (toy_dumps record0)"

definition enc_a :: encryptor where
  "enc_a = \<lparr>key_file = ''secret.key'', data_file = ''vault_data.json'', cipher = Some key_a\<rparr>"

definition time0 :: datetime where
  "time0 =
     \<lparr>dt_year = 2025, dt_month = 1, dt_day = 1, dt_hour = 12, dt_minute = 0, dt_second = 0\<rparr>"

text \<open>
  A world with the given files and faults; every file has the permission bits
  \<^verbatim>\<open>0o600\<close> (384), a new file gets \<^verbatim>\<open>0o644\<close> (420).
\<close>

definition world_of :: "(path \<rightharpoonup> bytes) \<Rightarrow> (path \<rightharpoonup> fault) \<Rightarrow> world" where
  "world_of fs flt =
     \<lparr>files = fs, modes = (\<lambda>p. if fs p = None then None else Some 384), faults = flt,
      create_mode = 420,
      entropy = ''fedcba9876543210fedcba9876543210abcdefghijklmnop'', clock = time0\<rparr>"


definition world_r :: world where
  "world_r = world_of [''vault_data.json'' \<mapsto> blob_a, ''foreign.bak'' \<mapsto> blob_b,
                       ''good.bak'' \<mapsto> blob_a, ''broken.bak'' \<mapsto> ''garbage''] Map.empty"

text \<open>A world whose data file cannot be opened for writing.\<close>

definition world_c :: world where
  "world_c = world_of [''secret.key'' \<mapsto> key_a, ''vault_data.json'' \<mapsto> blob_a]
               [''vault_data.json'' \<mapsto> OpenFails]"


definition auth0 :: authenticator where
  "auth0 = \<lparr>known_face_encodings = [[0, 0]], tolerance = 6 / 10, max_attempts = 3,
            timeout_seconds = 10\<rparr>"

text \<open>A stand-in for the distance function: the sum of the coordinate differences.\<close>

definition toy_faces :: face_recognition where
  "toy_faces =
     \<lparr>face_distance =
        (\<lambda>known f. Inr (map (\<lambda>r. sum_list (map (\<lambda>(x, y). \<bar>x - y\<bar>) (zip r f))) known))\<rparr>"

section \<open>Properties\<close>

subsection \<open>Facts about the concrete objects\<close>

lemma length_os_urandom: "length (fst (os_urandom n w)) = n"
  by (simp add: os_urandom_def)


lemma toy_fernet_roundtrip: "fernet_roundtrip toy_lib"
  by (simp add: fernet_roundtrip_def toy_lib_def toy_encrypt_def toy_decrypt_def)

lemma toy_fernet_rejects_other_key: "fernet_rejects_other_key toy_lib"
  by (simp add: fernet_rejects_other_key_def toy_lib_def toy_encrypt_def toy_decrypt_def)

lemma toy_roundtrip_record0: "toy_loads (toy_dumps record0) = Some record0"
  by (simp add: record0_def toy_loads_def toy_member_def toy_quote_def expect_def)

lemma decrypt_blob_a: "decrypt_data toy_lib enc_a blob_a = Inr record0"
  by (simp add: decrypt_data_def toy_lib_def enc_a_def blob_a_def toy_decrypt_def
      toy_encrypt_def key_a_def toy_roundtrip_record0)

lemma decrypt_garbage: "decrypt_data toy_lib enc_a ''garbage'' = Inl InvalidToken"
  by (simp add: decrypt_data_def toy_lib_def enc_a_def toy_decrypt_def key_a_def)

lemma decrypt_blob_a_key_b:
  "decrypt_data toy_lib (enc_a\<lparr>cipher := Some key_b\<rparr>) blob_a = Inl InvalidToken"
  by (simp add: decrypt_data_def toy_lib_def enc_a_def blob_a_def toy_decrypt_def
      toy_encrypt_def key_a_def key_b_def)

lemma backup_target_a:
  "backup_target enc_a None (world_of fs d) = ''vault_data.json.backup_20250101_120000''"
  by (simp add: backup_target_def strftime_backup_def pad4_def pad2_def digit_char_def
      world_of_def time0_def enc_a_def)

subsection \<open>Loading the vault\<close>

text \<open>
  Claim C7. For every path at which no vault data file exists, \<^verbatim>\<open>load_data\<close> returns the
  empty record \<^verbatim>\<open>{notes:"", last_modified:""}\<close> normally; it raises nothing.
\<close>

theorem load_data_missing_file:
  "files w (data_file e) = None \<Longrightarrow> load_data lib e w = Inr empty_record"
  by (simp add: load_data_def os_path_exists_def)

theorem load_data_missing_file_witness:
  "files (world_of [''secret.key'' \<mapsto> key_a] Map.empty) (data_file enc_a) = None \<and>
   load_data toy_lib enc_a (world_of [''secret.key'' \<mapsto> key_a] Map.empty) =
     Inr (JDict [(''notes'', JStr []), (''last_modified'', JStr [])])"
proof -
  have h: "files (world_of [''secret.key'' \<mapsto> key_a] Map.empty) (data_file enc_a) = None"
    by (simp add: world_of_def enc_a_def)
  show ?thesis
    using h load_data_missing_file [OF h, of toy_lib] by (simp add: empty_record_def)
qed

text \<open>
  Claim C1 says that a data file that exists and does not decrypt makes \<^verbatim>\<open>load_data\<close>
  surface a failure, and never the empty record. The code does the opposite: on the
  data file \<^verbatim>\<open>garbage\<close> decryption fails with \<^verbatim>\<open>InvalidToken\<close>, and \<^verbatim>\<open>load_data\<close> returns the
  empty record, the value it returns when there is no file at all.
\<close>

theorem load_data_swallows_counterexample:
  "os_path_exists (data_file enc_a) (world_of [''vault_data.json'' \<mapsto> ''garbage''] Map.empty) \<and>
   decrypt_data toy_lib enc_a ''garbage'' = Inl InvalidToken \<and>
   load_data toy_lib enc_a (world_of [''vault_data.json'' \<mapsto> ''garbage''] Map.empty) =
     Inr empty_record \<and>
   load_data toy_lib enc_a (world_of Map.empty Map.empty) = Inr empty_record"
  by (simp add: decrypt_garbage load_data_def os_path_exists_def read_file_def world_of_def)
     (simp add: enc_a_def)

text \<open>
  Claim C1, as the code has it: whenever the data file exists and its contents do not
  decrypt under the current cipher, \<^verbatim>\<open>load_data\<close> returns the empty record normally.
\<close>

theorem load_data_undecryptable:
  "files w (data_file e) = Some blob \<Longrightarrow> decrypt_data lib e blob = Inl x \<Longrightarrow>
   load_data lib e w = Inr empty_record"
  by (simp add: load_data_def os_path_exists_def read_file_def)

theorem load_data_undecryptable_witness:
  "files (world_of [''vault_data.json'' \<mapsto> ''garbage''] Map.empty) (data_file enc_a) =
     Some ''garbage'' \<and>
   decrypt_data toy_lib enc_a ''garbage'' = Inl InvalidToken \<and>
   load_data toy_lib enc_a (world_of [''vault_data.json'' \<mapsto> ''garbage''] Map.empty) =
     Inr empty_record"
proof -
  have h: "files (world_of [''vault_data.json'' \<mapsto> ''garbage''] Map.empty) (data_file enc_a) =
           Some ''garbage''"
    by (simp add: world_of_def enc_a_def)
  show ?thesis
    using h decrypt_garbage load_data_undecryptable [OF h decrypt_garbage] by simp
qed

subsection \<open>Key derivation\<close>

text \<open>
  Claim C8. With the salt supplied, \<^verbatim>\<open>derive_key_from_password\<close> does not touch the random
  source: it returns the key computed from passphrase and salt, together with that
  salt, and leaves the world as it was; so two invocations with the same passphrase and
  salt give the same key, whatever the state of the world.
\<close>

theorem derive_key_deterministic:
  "derive_key_from_password lib p (Some s) w1 =
     ((urlsafe_b64encode lib (PBKDF2HMAC_derive lib s 100000 32 (str_encode lib p)), s), w1) \<and>
   fst (derive_key_from_password lib p (Some s) w1) =
   fst (derive_key_from_password lib p (Some s) w2)"
  by (simp add: derive_key_from_password_def)

subsection \<open>Encryption and decryption\<close>

text \<open>
  Claim C3. For a record \<open>r\<close> that the JSON codec and the string codec of the library
  return unchanged, and a key \<open>k\<close> the cipher accepts, \<^verbatim>\<open>encrypt_data\<close> succeeds and
  \<^verbatim>\<open>decrypt_data\<close> of its result is \<open>r\<close> again, whatever initialisation vector the
  encryption draws.
\<close>

theorem encrypt_decrypt_roundtrip:
  assumes "cipher e = Some k" and "Fernet_valid_key lib k" and "fernet_roundtrip lib"
    and "bytes_decode lib (str_encode lib (json_dumps lib r)) = Some (json_dumps lib r)"
    and "json_loads lib (json_dumps lib r) = Some r"
  shows "\<exists>blob. fst (encrypt_data lib e r w) = Inr blob \<and> decrypt_data lib e blob = Inr r"
proof -
  let ?iv = "fst (os_urandom 16 w)"
  let ?blob = "Fernet_encrypt lib k ?iv (str_encode lib (json_dumps lib r))"
  have enc: "fst (encrypt_data lib e r w) = Inr ?blob"
    using assms(1) by (simp add: encrypt_data_def split_beta)
  have "Fernet_decrypt lib k ?blob = Some (str_encode lib (json_dumps lib r))"
    using assms(2,3) length_os_urandom [of 16 w] by (simp add: fernet_roundtrip_def)
  then have "decrypt_data lib e ?blob = Inr r"
    using assms(1,4,5) by (simp add: decrypt_data_def)
  with enc show ?thesis by blast
qed

theorem encrypt_decrypt_roundtrip_witness:
  "\<exists>blob. fst (encrypt_data toy_lib enc_a record0 (world_of Map.empty Map.empty)) = Inr blob \<and>
          decrypt_data toy_lib enc_a blob = Inr record0"
proof (rule encrypt_decrypt_roundtrip [where k = key_a])
  show "cipher enc_a = Some key_a" by (simp add: enc_a_def)
  show "Fernet_valid_key toy_lib key_a" by (simp add: toy_lib_def key_a_def)
  show "fernet_roundtrip toy_lib" by (rule toy_fernet_roundtrip)
  show "bytes_decode toy_lib (str_encode toy_lib (json_dumps toy_lib record0)) =
        Some (json_dumps toy_lib record0)" by (simp add: toy_lib_def)
  show "json_loads toy_lib (json_dumps toy_lib record0) = Some record0"
    using toy_roundtrip_record0 by (simp add: toy_lib_def)
qed

subsection \<open>Writing files\<close>

lemma write_file_no_fault:
  "faults w p = None \<Longrightarrow> write_file p c w = (Inr (), truncate_and_store p c w)"
  by (simp add: write_file_def)

lemma write_file_open_fails:
  "faults w p = Some OpenFails \<Longrightarrow> write_file p c w = (Inl OSError, w)"
  by (simp add: write_file_def)

lemma shutil_copy2_no_fault:
  assumes "files w src = Some c" and "src \<noteq> dst" and "faults w dst = None"
  shows "shutil_copy2 src dst w =
           (Inr (), w\<lparr>files := (files w)(dst \<mapsto> c), modes := (modes w)(dst := modes w src)\<rparr>)"
  using assms
  by (simp add: shutil_copy2_def read_file_def write_file_def copystat_def
      truncate_and_store_def)

lemma shutil_copy2_Inr:
  assumes "fst (shutil_copy2 src dst w) = Inr u"
  shows "\<exists>c. files w src = Some c \<and> files (snd (shutil_copy2 src dst w)) dst = Some c"
  using assms
  by (auto simp: shutil_copy2_def read_file_def write_file_def copystat_def
      truncate_and_store_def
      split: if_splits option.splits sum.splits prod.splits fault.splits)

subsection \<open>Restoring a backup\<close>

lemma restore_data_missing: "files w b = None \<Longrightarrow> restore_data lib e b w = (False, w)"
  by (simp add: restore_data_def os_path_exists_def)

lemma restore_data_undecryptable:
  "files w b = Some blob \<Longrightarrow> decrypt_data lib e blob = Inl x \<Longrightarrow>
   restore_data lib e b w = (False, w)"
  by (simp add: restore_data_def os_path_exists_def read_file_def)

lemma decrypt_data_other_key:
  assumes "fernet_rejects_other_key lib" and "cipher e = Some k" and "Fernet_valid_key lib k"
    and "Fernet_valid_key lib k'" and "k' \<noteq> k" and "length iv = 16"
  shows "decrypt_data lib e (Fernet_encrypt lib k' iv m) = Inl InvalidToken"
  using assms by (simp add: decrypt_data_def fernet_rejects_other_key_def)

lemma restore_data_True:
  assumes "fst (restore_data lib e b w)"
  shows "\<exists>blob d. files w b = Some blob \<and> decrypt_data lib e blob = Inr d \<and>
           files (snd (restore_data lib e b w)) (data_file e) = Some blob"
proof -
  from assms obtain blob where b: "files w b = Some blob"
    by (auto simp: restore_data_def os_path_exists_def split: if_splits)
  from assms b obtain d where d: "decrypt_data lib e blob = Inr d"
    by (cases "decrypt_data lib e blob")
       (auto simp: restore_data_def os_path_exists_def read_file_def)
  from assms b d obtain u where u: "fst (shutil_copy2 b (data_file e) w) = Inr u"
    by (cases "shutil_copy2 b (data_file e) w")
       (auto simp: restore_data_def os_path_exists_def read_file_def split: sum.splits)
  from assms b d have
    "snd (restore_data lib e b w) = snd (shutil_copy2 b (data_file e) w)"
    by (cases "shutil_copy2 b (data_file e) w")
       (auto simp: restore_data_def os_path_exists_def read_file_def split: sum.splits)
  with shutil_copy2_Inr [OF u] b d show ?thesis by auto
qed

text \<open>
  Claim C4. \<^verbatim>\<open>restore_data\<close> checks that the backup decrypts under the current cipher
  before it overwrites the data file. When the backup is missing, when its contents do
  not decrypt, and in particular when they were encrypted under another key, it returns
  \<^verbatim>\<open>False\<close> and leaves the world, the data file included, exactly as it was. When it
  returns \<^verbatim>\<open>True\<close>, the backup existed and decrypted, and the data file holds its bytes.
\<close>

theorem restore_verifies_backup_first:
  "(files w b = None \<longrightarrow> restore_data lib e b w = (False, w)) \<and>
   (\<forall>blob x. files w b = Some blob \<and> decrypt_data lib e blob = Inl x \<longrightarrow>
      restore_data lib e b w = (False, w)) \<and>
   (\<forall>k k' iv m. fernet_rejects_other_key lib \<and> cipher e = Some k \<and> Fernet_valid_key lib k \<and>
      Fernet_valid_key lib k' \<and> k' \<noteq> k \<and> length iv = 16 \<and>
      files w b = Some (Fernet_encrypt lib k' iv m) \<longrightarrow>
      restore_data lib e b w = (False, w)) \<and>
   (fst (restore_data lib e b w) \<longrightarrow>
      (\<exists>blob d. files w b = Some blob \<and> decrypt_data lib e blob = Inr d \<and>
         files (snd (restore_data lib e b w)) (data_file e) = Some blob))"
proof (intro conjI allI impI)
  assume "files w b = None"
  then show "restore_data lib e b w = (False, w)" by (rule restore_data_missing)
next
  fix blob x
  assume "files w b = Some blob \<and> decrypt_data lib e blob = Inl x"
  then show "restore_data lib e b w = (False, w)" by (blast intro: restore_data_undecryptable)
next
  fix k k' iv m
  assume a: "fernet_rejects_other_key lib \<and> cipher e = Some k \<and> Fernet_valid_key lib k \<and>
      Fernet_valid_key lib k' \<and> k' \<noteq> k \<and> length iv = 16 \<and>
      files w b = Some (Fernet_encrypt lib k' iv m)"
  then have "decrypt_data lib e (Fernet_encrypt lib k' iv m) = Inl InvalidToken"
    by (blast intro: decrypt_data_other_key)
  with a show "restore_data lib e b w = (False, w)" by (blast intro: restore_data_undecryptable)
next
  assume "fst (restore_data lib e b w)"
  then show "\<exists>blob d. files w b = Some blob \<and> decrypt_data lib e blob = Inr d \<and>
         files (snd (restore_data lib e b w)) (data_file e) = Some blob"
    by (rule restore_data_True)
qed

theorem restore_verifies_backup_first_witness:
  "restore_data toy_lib enc_a ''missing.bak'' world_r = (False, world_r) \<and>
   restore_data toy_lib enc_a ''broken.bak'' world_r = (False, world_r) \<and>
   restore_data toy_lib enc_a ''foreign.bak'' world_r = (False, world_r) \<and>
   fst (restore_data toy_lib enc_a ''good.bak'' world_r) \<and>
   files (snd (restore_data toy_lib enc_a ''good.bak'' world_r)) ''vault_data.json'' = Some blob_a"
proof -
  note t = restore_verifies_backup_first [of world_r _ toy_lib enc_a]
  have 1: "restore_data toy_lib enc_a ''missing.bak'' world_r = (False, world_r)"
    using t [of "''missing.bak''"] by (simp add: world_r_def world_of_def)
  have "files world_r ''broken.bak'' = Some ''garbage''"
    by (simp add: world_r_def world_of_def)
  then have 2: "restore_data toy_lib enc_a ''broken.bak'' world_r = (False, world_r)"
    using t [of "''broken.bak''"] decrypt_garbage by blast
  have "files world_r ''foreign.bak'' =
        Some (Fernet_encrypt toy_lib key_b ''0000000000000000'' (toy_dumps record0))"
    by (simp add: world_r_def world_of_def blob_b_def toy_lib_def)
  moreover have "cipher enc_a = Some key_a" "Fernet_valid_key toy_lib key_a"
    "Fernet_valid_key toy_lib key_b" "key_b \<noteq> key_a" "length ''0000000000000000'' = 16"
    by (simp_all add: enc_a_def toy_lib_def key_a_def key_b_def)
  ultimately have 3: "restore_data toy_lib enc_a ''foreign.bak'' world_r = (False, world_r)"
    using t [of "''foreign.bak''"] toy_fernet_rejects_other_key by blast
  have g: "files world_r ''good.bak'' = Some blob_a" "''good.bak'' \<noteq> data_file enc_a"
    "faults world_r (data_file enc_a) = None"
    by (simp_all add: world_r_def world_of_def enc_a_def)
  have 4: "fst (restore_data toy_lib enc_a ''good.bak'' world_r) \<and>
      files (snd (restore_data toy_lib enc_a ''good.bak'' world_r)) (data_file enc_a) =
        Some blob_a"
    using g decrypt_blob_a shutil_copy2_no_fault [OF g]
    by (simp add: restore_data_def os_path_exists_def read_file_def)
  show ?thesis using 1 2 3 4 by (simp add: enc_a_def)
qed

subsection \<open>Making a backup\<close>





lemma backup_target_differs: "data_file e \<noteq> backup_target e None w"
  by (simp add: backup_target_def)

lemma backup_data_copies:
  assumes "files w (data_file e) = Some c" and "faults w (backup_target e None w) = None"
  shows "backup_data e None w =
           (True, w\<lparr>files := (files w)(backup_target e None w \<mapsto> c),
                    modes := (modes w)(backup_target e None w := modes w (data_file e))\<rparr>)"
  using assms shutil_copy2_no_fault [OF assms(1) backup_target_differs assms(2)]
  by (simp add: backup_data_def os_path_exists_def)




subsection \<open>Changing the key\<close>

lemma load_data_c: "load_data toy_lib enc_a world_c = Inr record0"
  using decrypt_blob_a
  by (simp add: load_data_def os_path_exists_def read_file_def world_c_def world_of_def)
     (simp add: enc_a_def)

lemma backup_data_c:
  "backup_data enc_a None world_c =
     (True, world_c\<lparr>files := (files world_c)(''vault_data.json.backup_20250101_120000'' \<mapsto> blob_a),
        modes := (modes world_c)(''vault_data.json.backup_20250101_120000'' \<mapsto> 384)\<rparr>)"
proof -
  have "files world_c (data_file enc_a) = Some blob_a"
    by (simp add: world_c_def world_of_def enc_a_def)
  moreover have "faults world_c (backup_target enc_a None world_c) = None"
    by (simp add: backup_target_a world_c_def) (simp add: world_of_def)
  moreover have "modes world_c (data_file enc_a) = Some 384"
    by (simp add: world_c_def world_of_def enc_a_def)
  ultimately show ?thesis
    using backup_data_copies [of world_c enc_a blob_a]
    by (simp add: backup_target_a world_c_def)
qed

lemma change_key_c:
  "change_encryption_key toy_lib enc_a (Some key_b) world_c =
     (False, enc_a\<lparr>cipher := Some key_b\<rparr>,
      world_c\<lparr>files := (files world_c)
                 (''vault_data.json.backup_20250101_120000'' \<mapsto> blob_a,
                  ''secret.key'' \<mapsto> key_b),
              modes := (modes world_c)
                 (''vault_data.json.backup_20250101_120000'' \<mapsto> 384, ''secret.key'' \<mapsto> 384),
              entropy := drop 16 (entropy world_c)\<rparr>)"
proof -
  have v: "Fernet toy_lib key_b = Inr key_b"
    by (simp add: Fernet_def toy_lib_def key_b_def)
  have f: "faults world_c ''secret.key'' = None"
    "faults world_c ''vault_data.json'' = Some OpenFails"
    "files world_c ''secret.key'' = Some key_a"
    by (simp_all add: world_c_def world_of_def)
  show ?thesis
    using f
    by (simp add: change_encryption_key_def load_data_c backup_data_c v Let_def)
       (simp add: save_key_def save_data_def encrypt_data_def write_file_def os_chmod_def
          truncate_and_store_def os_urandom_def enc_a_def split_beta)
qed

text \<open>
  The order of the two writes, for any library and world: when the key file can be
  written and the data file cannot be opened for writing, the method returns \<^verbatim>\<open>False\<close>
  and the only file it has changed since the backup is the key file, which holds the
  new key.
\<close>

lemma change_key_data_open_fails:
  assumes "load_data lib e w = Inr existing_data"
    and "backup_data e None w = (backed_up, w1)"
    and "(case new_key of None \<Rightarrow> generate_key lib w1 | Some k \<Rightarrow> (k, w1)) = (k', w2)"
    and "Fernet_valid_key lib k'"
    and "faults w2 (key_file e) = None"
    and "faults w2 (data_file e) = Some OpenFails"
  shows "fst (change_encryption_key lib e new_key w) = False \<and>
         files (snd (snd (change_encryption_key lib e new_key w))) =
           (files w2)(key_file e \<mapsto> k')"
  using assms
  by (simp add: change_encryption_key_def Fernet_def Let_def save_key_def save_data_def
      encrypt_data_def write_file_def os_chmod_def truncate_and_store_def os_urandom_def
      split_beta)

text \<open>
  Claim C2: the key file is replaced only after the re-encrypted record has been
  written, so that a failure in between leaves the vault decryptable with the key on
  disk. \<^verbatim>\<open>change_encryption_key\<close> saves the new key first and the record second. In the
  world \<open>world_c\<close> the data file decrypts under the key on disk and cannot be opened for
  writing. There the method returns \<^verbatim>\<open>False\<close>; the key file holds the new key; the data
  file and the backup the method has just made hold the old ciphertext, which does not
  decrypt under the new key; and \<^verbatim>\<open>load_data\<close>, which returned the record before, now
  returns the empty record.
\<close>

theorem change_key_failure_loses_vault:
  "load_data toy_lib enc_a world_c = Inr record0 \<and>
   files world_c ''secret.key'' = Some key_a \<and>
   fst (change_encryption_key toy_lib enc_a (Some key_b) world_c) = False \<and>
   cipher (fst (snd (change_encryption_key toy_lib enc_a (Some key_b) world_c))) = Some key_b \<and>
   files (snd (snd (change_encryption_key toy_lib enc_a (Some key_b) world_c))) ''secret.key'' =
     Some key_b \<and>
   files (snd (snd (change_encryption_key toy_lib enc_a (Some key_b) world_c)))
     ''vault_data.json'' = Some blob_a \<and>
   files (snd (snd (change_encryption_key toy_lib enc_a (Some key_b) world_c)))
     ''vault_data.json.backup_20250101_120000'' = Some blob_a \<and>
   decrypt_data toy_lib (enc_a\<lparr>cipher := Some key_b\<rparr>) blob_a = Inl InvalidToken \<and>
   load_data toy_lib (fst (snd (change_encryption_key toy_lib enc_a (Some key_b) world_c)))
     (snd (snd (change_encryption_key toy_lib enc_a (Some key_b) world_c))) = Inr empty_record"
proof -
  have f: "files world_c ''vault_data.json'' = Some blob_a"
    "files world_c ''secret.key'' = Some key_a"
    by (simp_all add: world_c_def world_of_def)
  have l: "load_data toy_lib (enc_a\<lparr>cipher := Some key_b\<rparr>) w = Inr empty_record"
    if "files w ''vault_data.json'' = Some blob_a" for w
    using that decrypt_blob_a_key_b
    by (simp add: load_data_def os_path_exists_def read_file_def enc_a_def)
  show ?thesis
    using decrypt_blob_a_key_b
    by (simp add: change_key_c load_data_c f l)
qed

subsection \<open>Constructing the encryptor\<close>





subsection \<open>Matching a face\<close>

text \<open>
  What \<^verbatim>\<open>verify_face\<close> decides, in terms of the distances the library returns: no
  encoding of the frame or no known encoding gives \<^verbatim>\<open>False\<close>; an exception of the library
  gives \<^verbatim>\<open>False\<close>; otherwise one encoding of the frame is accepted exactly when one of
  its distances is at most the tolerance.
\<close>

lemma verify_face_no_input:
  "verify_face fr a None = False \<and> verify_face fr a (Some []) = False \<and>
   (known_face_encodings a = [] \<longrightarrow> verify_face fr a encs = False)"
  by (simp add: verify_face_def split: option.splits)

lemma verify_face_single:
  "verify_face fr a (Some [obs]) =
     (known_face_encodings a \<noteq> [] \<and>
      (case face_distance fr (known_face_encodings a) obs of
         Inl x \<Rightarrow> False
       | Inr face_distances \<Rightarrow> list_ex (\<lambda>d. d \<le> tolerance a) face_distances))"
  by (simp add: verify_face_def split: sum.splits)

subsection \<open>The authentication loop\<close>

text \<open>
  Claim C6. In a pass of the loop that is entered (the attempts are below the maximum),
  has not timed out and reads a frame in which no face is detected, the consecutive-match
  counter becomes 0, the attempts counter keeps its value, and the loop goes on with the
  next pass: the pass neither returns nor leaves the loop.
\<close>

theorem no_face_is_no_attempt:
  assumes "attempts < max_attempts a"
    and "\<not> now t - start_time > timeout_seconds a"
    and "frame t = Some img"
    and "\<not> fst (detect_and_encode_face img)"
  shows "loop_body fr a start_time attempts consecutive_matches t = Continue attempts 0 \<and>
         sampling fr a start_time attempts consecutive_matches (t # ts) =
         sampling fr a start_time attempts 0 ts"
  using assms by (cases "detect_and_encode_face img") (auto simp: loop_body_def)

theorem no_face_is_no_attempt_witness:
  "loop_body toy_faces auth0 0 2 2 \<lparr>now = 1, frame = Some []\<rparr> = Continue 2 0 \<and>
   sampling toy_faces auth0 0 2 2 [\<lparr>now = 1, frame = Some []\<rparr>] = None"
proof -
  have "loop_body toy_faces auth0 0 2 2 \<lparr>now = 1, frame = Some []\<rparr> = Continue 2 0 \<and>
        sampling toy_faces auth0 0 2 2 (\<lparr>now = 1, frame = Some []\<rparr> # []) =
        sampling toy_faces auth0 0 2 0 []"
    by (rule no_face_is_no_attempt) (simp_all add: auth0_def detect_and_encode_face_def)
  then show ?thesis by (simp add: auth0_def)
qed

end
